theory Spec2Isabelle
  imports Main "HOL-Library.FSet" "HOL-Library.AList"
begin

section \<open>Exceptions and generators\<close>

text \<open>
  The exception classes of \<^verbatim>\<open>movesets.py\<close> (all subclasses of
  \<^verbatim>\<open>IllegalMoveCombination\<close>, itself a subclass of the built-in
  \<^verbatim>\<open>ValueError\<close>), together with the two built-in exceptions the modelled
  code can raise. A \<^verbatim>\<open>KeyError\<close> carries the missing key: a string for the
  cost table, a number for the tables keyed by database ids.
\<close>

datatype exn =
    ValueError string
  | KeyError string
  | KeyErrorId nat
  | TypeError string
  | IllegalMoveCombination string
  | TooManyMoves string
  | NoMoves string
  | MovesNotLearnable string
  | NoParent string
  | TargetExcluded string

text \<open>\<^verbatim>\<open>isinstance(e, MovesNotLearnable)\<close>: the class has no subclass.\<close>

fun is_MovesNotLearnable :: "exn \<Rightarrow> bool" where
  "is_MovesNotLearnable (MovesNotLearnable _) = True"
| "is_MovesNotLearnable _ = False"

text \<open>\<^verbatim>\<open>isinstance(e, ValueError)\<close>: the built-in class and the module's own classes.\<close>

fun is_ValueError :: "exn \<Rightarrow> bool" where
  "is_ValueError (KeyError _) = False"
| "is_ValueError (KeyErrorId _) = False"
| "is_ValueError (TypeError _) = False"
| "is_ValueError _ = True"

text \<open>
  A Python generator that is drained by its consumer: the items it yields, in order, and
  the exception that ends it, if one does. Items yielded before a \<^verbatim>\<open>raise\<close> have
  been handed to the consumer, so they are kept.
\<close>

type_synonym 'a gen = "'a list \<times> exn option"

text \<open>A \<^verbatim>\<open>for\<close> loop whose body yields: the first exception ends the loop.\<close>

fun gen_for :: "'a list \<Rightarrow> ('a \<Rightarrow> 'b gen) \<Rightarrow> 'b gen" where
  "gen_for [] body = ([], None)"
| "gen_for (x # xs) body =
     (case body x of
        (ys, Some e) \<Rightarrow> (ys, Some e)
      | (ys, None) \<Rightarrow> (case gen_for xs body of (zs, r) \<Rightarrow> (ys @ zs, r)))"

section \<open>The search information object\<close>

text \<open>
  The fields of \<^verbatim>\<open>MovesetSearch\<close> that the modelled methods read and write.
  Database ids are natural numbers, levels and costs are Python integers. A plain
  \<^verbatim>\<open>dict\<close> is an association list in its iteration order (which Python leaves
  unspecified), a \<^verbatim>\<open>defaultdict\<close> keyed by an id is a total function that
  returns the default at an absent key, a \<^verbatim>\<open>frozenset\<close> is a finite set.
\<close>

type_synonym moveset = "nat fset"
type_synonym method_table = "(string \<times> (int \<times> int) list) list"
type_synonym move_table = "(nat \<times> method_table) list"
type_synonym version_table = "(nat \<times> move_table) list"

record search =
  costs :: "(string \<times> int) list"
  pokemon_moves :: "(nat \<times> version_table) list"
  egg_groups :: "(nat \<times> nat list) list"
  evolution_chains :: "(nat \<times> nat) list"
  evolution_moves :: "(nat \<times> nat) list"
  generation_id_by_version_group :: "(nat \<times> int) list"
  breeds_required :: "nat \<Rightarrow> (moveset \<times> nat) list"
  movepools :: "nat \<Rightarrow> (nat \<times> int) list"
  learnpools :: "nat \<Rightarrow> moveset"
  smeargle_families :: "nat fset"
  excluded_families :: "nat fset"
  goal_evolution_chain :: "nat option"
  goal_moves :: moveset
  egg_moves :: moveset
  sketch :: nat

text \<open>\<^verbatim>\<open>default_costs\<close>, the module's cost table.\<close>

definition default_costs :: "(string \<times> int) list" where
  "default_costs =
     [(''level-up'', 20), (''machine'', 40), (''machine-once'', 2000), (''tutor'', 60),
      (''tutor-once'', 2100), (''sketch'', 5), (''stadium-surfing-pikachu'', 100),
      (''light-ball-egg'', 100), (''colosseum-purification'', 100), (''xd-shadow'', 100),
      (''xd-purification'', 100), (''form-change'', 100), (''evolution'', 100),
      (''evolution-delayed'', 50), (''breed'', 400), (''trade'', 200), (''transfer'', 200),
      (''forget'', 300), (''relearn'', 150), (''per-level'', 1)]"

text \<open>\<^verbatim>\<open>d[k]\<close> on a plain dict: a missing key raises \<^verbatim>\<open>KeyError\<close>.\<close>

definition cost_of :: "search \<Rightarrow> string \<Rightarrow> exn + int" where
  "cost_of s k = (case map_of (costs s) k of None \<Rightarrow> Inl (KeyError k) | Some c \<Rightarrow> Inr c)"

text \<open>\<^verbatim>\<open>d[k]\<close> on a \<^verbatim>\<open>defaultdict\<close> of containers: a missing key reads as empty.\<close>

definition lookup_default :: "('k \<times> 'v list) list \<Rightarrow> 'k \<Rightarrow> 'v list" where
  "lookup_default d k = (case map_of d k of None \<Rightarrow> [] | Some v \<Rightarrow> v)"

section \<open>Search space transitions and nodes\<close>

datatype action =
    StartAction nat nat
  | LearnAction nat string
  | ForgetAction nat

text \<open>
  \<^verbatim>\<open>PokemonNode\<close> without its \<^verbatim>\<open>search\<close> field, which every node of one
  search shares and which is passed along instead.
\<close>

record PokemonNode =
  pokemon :: nat
  level :: int
  version_group :: nat
  moves :: moveset
  new_level :: bool

type_synonym transition = "int \<times> action \<times> PokemonNode"

text \<open>
  \<^verbatim>\<open>PokemonNode._learn(move, method, cost, **kwargs)\<close>: the keyword arguments are the
  fields \<^verbatim>\<open>_replace\<close> overwrites, given here as the update they perform;
  \<^verbatim>\<open>moves\<close> is always overwritten with the union.
\<close>

definition learn ::
  "PokemonNode \<Rightarrow> nat \<Rightarrow> string \<Rightarrow> int \<Rightarrow> (PokemonNode \<Rightarrow> PokemonNode) \<Rightarrow> transition" where
  "learn n mv method cost kwargs =
     (cost, LearnAction mv method, (kwargs n)\<lparr>moves := finsert mv (moves n)\<rparr>)"

text \<open>The body of the \<^verbatim>\<open>level-up\<close> loop of \<^verbatim>\<open>expand_learn\<close>, for one record.\<close>

definition learn_level_up :: "search \<Rightarrow> PokemonNode \<Rightarrow> nat \<Rightarrow> int \<times> int \<Rightarrow> transition gen" where
  "learn_level_up s n mv lc =
     (case lc of (lv, cost) \<Rightarrow>
        let level_difference = lv - level n in
        if level_difference > 0 \<or> (level_difference = 0 \<and> new_level n) then
          (case cost_of s ''per-level'' of
             Inl e \<Rightarrow> ([], Some e)
           | Inr per_level \<Rightarrow>
               ([learn n mv ''level-up'' (cost + level_difference * per_level)
                   (\<lambda>m. m\<lparr>level := lv, new_level := True\<rparr>)], None))
        else
          (case cost_of s ''relearn'' of
             Inl e \<Rightarrow> ([], Some e)
           | Inr relearn \<Rightarrow>
               ([learn n mv ''relearn'' relearn (\<lambda>m. m\<lparr>new_level := False\<rparr>)], None)))"

text \<open>The \<^verbatim>\<open>if\<close>/\<^verbatim>\<open>elif\<close> chain over the method of one entry of a move.\<close>

definition expand_learn_method ::
  "search \<Rightarrow> PokemonNode \<Rightarrow> nat \<Rightarrow> string \<times> (int \<times> int) list \<Rightarrow> transition gen" where
  "expand_learn_method s n mv entry =
     (case entry of (method, levels_costs) \<Rightarrow>
        if method = ''level-up'' then
          gen_for levels_costs (learn_level_up s n mv)
        else if method \<in> set [''machine'', ''tutor''] then
          gen_for levels_costs
            (\<lambda>(lv, cost). ([learn n mv method cost (\<lambda>m. m\<lparr>new_level := False\<rparr>)], None))
        else if method = ''egg'' then
          ([], None)
        else if method = ''light-ball-egg'' then
          (if level n = 0 then
             gen_for levels_costs (\<lambda>(lv, cost). ([learn n mv method cost (\<lambda>m. m)], None))
           else ([], None))
        else if method = ''stadium-surfing-pikachu'' then
          gen_for levels_costs
            (\<lambda>(lv, cost). ([learn n mv method cost (\<lambda>m. m\<lparr>new_level := False\<rparr>)], None))
        else
          ([], Some (ValueError (''Unknown move method '' @ method))))"

text \<open>
  \<^verbatim>\<open>search.pokemon_moves[self.pokemon][self.version_group]\<close>, the table
  \<^verbatim>\<open>expand_learn\<close> scans.
\<close>

definition learn_table :: "search \<Rightarrow> PokemonNode \<Rightarrow> move_table" where
  "learn_table s n =
     lookup_default (lookup_default (pokemon_moves s) (pokemon n)) (version_group n)"

definition expand_learn :: "search \<Rightarrow> PokemonNode \<Rightarrow> transition gen" where
  "expand_learn s n =
     gen_for (learn_table s n)
       (\<lambda>(mv, methods).
          if mv |\<in>| moves n then ([], None)
          else gen_for methods (expand_learn_method s n mv))"

text \<open>
  \<^verbatim>\<open>expand_forget\<close>. The cost is looked up before the loop starts. The set is
  iterated in ascending order; Python leaves the order unspecified.
\<close>

definition expand_forget :: "search \<Rightarrow> PokemonNode \<Rightarrow> transition gen" where
  "expand_forget s n =
     (case cost_of s ''forget'' of
        Inl e \<Rightarrow> ([], Some e)
      | Inr cost \<Rightarrow>
          gen_for (sorted_list_of_fset (moves n))
            (\<lambda>mv. ([(cost, ForgetAction mv,
                      n\<lparr>moves := moves n |-| {|mv|}, new_level := False\<rparr>)], None)))"

text \<open>\<^verbatim>\<open>PokemonNode.expand\<close>.\<close>

definition expand :: "search \<Rightarrow> PokemonNode \<Rightarrow> transition gen" where
  "expand s n =
     (if moves n = {||} then expand_learn s n
      else if fcard (moves n) < 4 then expand_learn s n
      else expand_forget s n)"

text \<open>
  \<^verbatim>\<open>InitialNode.expand\<close>. \<^verbatim>\<open>evolution_chains\<close> is a plain dict,
  \<^verbatim>\<open>egg_groups\<close> and \<^verbatim>\<open>breeds_required\<close> are defaultdicts; an empty dict of
  breeding requirements is false.
\<close>

definition InitialNode_expand :: "search \<Rightarrow> transition gen" where
  "InitialNode_expand s =
     gen_for (pokemon_moves s)
       (\<lambda>(pk, version_groups).
          case map_of (evolution_chains s) pk of
            None \<Rightarrow> ([], Some (KeyErrorId pk))
          | Some chain \<Rightarrow>
              if list_ex (\<lambda>g. breeds_required s g \<noteq> []) (lookup_default (egg_groups s) chain)
              then gen_for version_groups
                (\<lambda>(vg, _). ([(0, StartAction pk vg,
                     \<lparr>pokemon = pk, level = 0, version_group = vg, moves = {||},
                      new_level = False\<rparr>)], None))
              else ([], None))"

text \<open>The states the search can visit: those some chain of yielded transitions leads to.\<close>

inductive reachable :: "search \<Rightarrow> PokemonNode \<Rightarrow> bool" for s :: search where
  start: "(c, a, n) \<in> set (fst (InitialNode_expand s)) \<Longrightarrow> reachable s n"
| step: "reachable s n \<Longrightarrow> (c, a, n') \<in> set (fst (expand s n)) \<Longrightarrow> reachable s n'"

fun is_learn :: "transition \<Rightarrow> bool" where
  "is_learn (_, LearnAction _ _, _) = True"
| "is_learn _ = False"

fun is_forget :: "transition \<Rightarrow> bool" where
  "is_forget (_, ForgetAction _, _) = True"
| "is_forget _ = False"

text \<open>The methods \<^verbatim>\<open>expand_learn\<close> has a branch for.\<close>

definition recognized_methods :: "string list" where
  "recognized_methods =
     [''level-up'', ''machine'', ''tutor'', ''egg'', ''light-ball-egg'',
      ''stadium-surfing-pikachu'']"

text \<open>The move data of a node holds a record whose method is not among them.\<close>

definition has_unrecognized_method :: "search \<Rightarrow> PokemonNode \<Rightarrow> bool" where
  "has_unrecognized_method s n =
     list_ex (\<lambda>(mv, methods). list_ex (\<lambda>(method, lcs). method \<notin> set recognized_methods) methods)
       (learn_table s n)"

section \<open>Version compatibility\<close>

text \<open>\<^verbatim>\<open>self.generation_id_by_version_group[vg]\<close>, a plain dict.\<close>

definition generation_of :: "search \<Rightarrow> nat \<Rightarrow> exn + int" where
  "generation_of s vg =
     (case map_of (generation_id_by_version_group s) vg of
        None \<Rightarrow> Inl (KeyErrorId vg)
      | Some g \<Rightarrow> Inr g)"

text \<open>
  \<^verbatim>\<open>MovesetSearch.trade_cost\<close>: the cost of trading between two version groups,
  \<^verbatim>\<open>None\<close> when it is impossible. The costs are looked up only in the branches
  that return them.
\<close>

definition trade_cost :: "search \<Rightarrow> nat \<Rightarrow> nat \<Rightarrow> int list \<Rightarrow> exn + int option" where
  "trade_cost s version_group_from version_group_to thing_generations =
     (case generation_of s version_group_from of
        Inl e \<Rightarrow> Inl e
      | Inr gen_from \<Rightarrow>
     (case generation_of s version_group_to of
        Inl e \<Rightarrow> Inl e
      | Inr gen_to \<Rightarrow>
          if gen_from = gen_to then
            (case cost_of s ''trade'' of Inl e \<Rightarrow> Inl e | Inr trade \<Rightarrow> Inr (Some trade))
          else if list_ex (\<lambda>gen. gen > gen_to) thing_generations then Inr None
          else if gen_from \<in> set [1, 2] then
            (if gen_to \<in> set [1, 2] then
               (case cost_of s ''trade'' of Inl e \<Rightarrow> Inl e | Inr trade \<Rightarrow> Inr (Some trade))
             else Inr None)
          else if gen_to \<in> set [1, 2] then Inr None
          else if gen_from > gen_to then Inr None
          else if gen_from < gen_to - 1 then Inr None
          else
            (case cost_of s ''trade'' of
               Inl e \<Rightarrow> Inl e
             | Inr trade \<Rightarrow>
                 (case cost_of s ''transfer'' of
                    Inl e \<Rightarrow> Inl e
                  | Inr transfer \<Rightarrow> Inr (Some (trade + transfer))))))"

section \<open>Setup\<close>

text \<open>
  The two fields \<^verbatim>\<open>__init__\<close> sets first and \<^verbatim>\<open>__iter__\<close> reads, for a
  generator of type \<^typ>\<open>'g\<close>.
\<close>

record 'g moveset_search =
  generator :: "'g option"
  error :: "exn option"

text \<open>
  The checks on the requested moves that open \<^verbatim>\<open>MovesetSearch.__init__\<close>;
  \<^verbatim>\<open>rest\<close> is what the remainder of the constructor, which loads the data and
  starts the search, leaves in the two fields.
\<close>

definition init :: "'m list \<Rightarrow> 'g moveset_search \<Rightarrow> 'g moveset_search" where
  "init mvs rest =
     (if mvs = [] then
        \<lparr>generator = None, error = Some (NoMoves ''No moves specified.'')\<rparr>
      else if length mvs > 4 then
        \<lparr>generator = None, error = Some (NoMoves ''Too many moves specified.'')\<rparr>
      else rest)"

text \<open>
  \<^verbatim>\<open>MovesetSearch.__iter__\<close>: the generator if there is one, else the stored
  error is raised (raising \<^verbatim>\<open>None\<close> is a \<^verbatim>\<open>TypeError\<close>).
\<close>

definition iter :: "'g moveset_search \<Rightarrow> exn + 'g" where
  "iter so =
     (case generator so of
        Some g \<Rightarrow> Inr g
      | None \<Rightarrow>
          (case error so of
             Some e \<Rightarrow> Inl e
           | None \<Rightarrow> Inl (TypeError ''exceptions must be classes or instances, not NoneType'')))"

text \<open>\<^verbatim>\<open>isinstance\<close> for the two classes of the move-count checks; neither has a subclass.\<close>

fun is_TooManyMoves :: "exn \<Rightarrow> bool" where
  "is_TooManyMoves (TooManyMoves _) = True"
| "is_TooManyMoves _ = False"

fun is_NoMoves :: "exn \<Rightarrow> bool" where
  "is_NoMoves (NoMoves _) = True"
| "is_NoMoves _ = False"

section \<open>Loading the move data\<close>

text \<open>
  The rows of the query of \<^verbatim>\<open>load_pokemon_moves\<close>: the join of the tables
  \<^verbatim>\<open>PokemonMove\<close>, \<^verbatim>\<open>Pokemon\<close> and \<^verbatim>\<open>PokemonMoveMethod\<close>, with the
  six columns the query selects. The database is the list of all such rows.
\<close>

record move_row =
  row_pokemon :: nat
  row_move :: nat
  row_version_group :: nat
  row_method :: string
  row_level :: int
  row_chain :: nat

text \<open>
  The filters of the query and its ordering by level. \<^verbatim>\<open>if evolution_chain:\<close> is
  false for \<^verbatim>\<open>None\<close> and for 0; a selection other than \<^verbatim>\<open>'family'\<close> and
  \<^verbatim>\<open>'others'\<close> adds no filter.
\<close>

definition chain_selected :: "nat option \<Rightarrow> string \<Rightarrow> nat \<Rightarrow> bool" where
  "chain_selected evolution_chain selection chain =
     (case evolution_chain of
        None \<Rightarrow> True
      | Some c \<Rightarrow>
          if c = 0 then True
          else if selection = ''family'' then chain = c
          else if selection = ''others'' then chain \<noteq> c
          else True)"

definition row_selected :: "search \<Rightarrow> nat option \<Rightarrow> string \<Rightarrow> move_row \<Rightarrow> bool" where
  "row_selected s evolution_chain selection r =
     (row_version_group r \<in> set (map fst (generation_id_by_version_group s)) \<and>
      (row_level r > 100 \<or> row_move r |\<in>| goal_moves s \<or> row_move r = sketch s \<or>
       row_move r \<in> set (map snd (evolution_moves s))) \<and>
      (if excluded_families s = {||} then True else row_chain r |\<notin>| excluded_families s) \<and>
      chain_selected evolution_chain selection (row_chain r))"

definition select_rows :: "search \<Rightarrow> move_row list \<Rightarrow> nat option \<Rightarrow> string \<Rightarrow> move_row list" where
  "select_rows s db evolution_chain selection =
     sort_key row_level (filter (row_selected s evolution_chain selection) db)"

text \<open>The cost of a goal move, by its method and the generation of the version group.\<close>

definition move_cost :: "search \<Rightarrow> move_row \<Rightarrow> exn + int" where
  "move_cost s r =
     (if row_method r = ''level-up'' then cost_of s ''level-up''
      else
        (case generation_of s (row_version_group r) of
           Inl e \<Rightarrow> Inl e
         | Inr gen \<Rightarrow>
             if row_method r = ''machine'' \<and> gen < 5 then cost_of s ''machine-once''
             else if row_method r = ''tutor'' \<and> gen = 3 then cost_of s ''tutor-once''
             else if row_method r = ''egg'' then cost_of s ''breed''
             else cost_of s (row_method r)))"

text \<open>\<^verbatim>\<open>self.evolution_chains[pokemon]\<close>, a plain dict.\<close>

definition evolution_chain_of :: "search \<Rightarrow> nat \<Rightarrow> exn + nat" where
  "evolution_chain_of s pkmn =
     (case map_of (evolution_chains s) pkmn of None \<Rightarrow> Inl (KeyErrorId pkmn) | Some c \<Rightarrow> Inr c)"

text \<open>
  \<^verbatim>\<open>self.pokemon_moves[pokemon][vg][move][method].append((level, cost))\<close> on the
  nested \<^verbatim>\<open>defaultdict\<close>s.
\<close>

definition append_record :: "move_row \<Rightarrow> int \<Rightarrow> search \<Rightarrow> search" where
  "append_record r cost s =
     (let by_version = lookup_default (pokemon_moves s) (row_pokemon r);
          by_move = lookup_default by_version (row_version_group r);
          by_method = lookup_default by_move (row_move r);
          records = lookup_default by_method (row_method r)
      in s\<lparr>pokemon_moves :=
           AList.update (row_pokemon r)
             (AList.update (row_version_group r)
                (AList.update (row_move r)
                   (AList.update (row_method r) (records @ [(row_level r, cost)]) by_method)
                   by_move)
                by_version)
             (pokemon_moves s)\<rparr>)"

text \<open>The state of the loop: the search object and the two sets the function returns.\<close>

record load_state =
  loaded :: search
  easy_moves :: moveset
  non_egg_moves :: moveset

definition pool_goal_move :: "move_row \<Rightarrow> int \<Rightarrow> int \<Rightarrow> load_state \<Rightarrow> load_state" where
  "pool_goal_move r cost breed_cost st =
     (let s = loaded st;
          pool = movepools s (row_chain r);
          best = min (case map_of pool (row_move r) of None \<Rightarrow> cost | Some c \<Rightarrow> c) cost;
          s1 = s\<lparr>movepools := (movepools s)(row_chain r := AList.update (row_move r) best pool)\<rparr>
      in if row_method r \<noteq> ''egg'' then
           \<lparr>loaded = s1\<lparr>learnpools :=
                 (learnpools s1)(row_chain r := finsert (row_move r) (learnpools s1 (row_chain r)))\<rparr>,
             easy_moves = (if cost < breed_cost then finsert (row_move r) (easy_moves st)
                           else easy_moves st),
             non_egg_moves = finsert (row_move r) (non_egg_moves st)\<rparr>
         else st\<lparr>loaded := s1\<rparr>)"

definition load_row :: "int \<Rightarrow> int \<Rightarrow> move_row \<Rightarrow> load_state \<Rightarrow> exn + load_state" where
  "load_row sketch_cost breed_cost r st =
     (let s = loaded st in
      if row_move r |\<in>| goal_moves s then
        (case move_cost s r of
           Inl e \<Rightarrow> Inl e
         | Inr cost \<Rightarrow>
             (let st1 = pool_goal_move r cost breed_cost st
              in Inr (st1\<lparr>loaded := append_record r cost (loaded st1)\<rparr>)))
      else if row_move r = sketch s then
        (case evolution_chain_of s (row_pokemon r) of
           Inl e \<Rightarrow> Inl e
         | Inr c \<Rightarrow>
             Inr (st\<lparr>loaded := append_record r sketch_cost
                      (s\<lparr>smeargle_families := finsert c (smeargle_families s)\<rparr>)\<rparr>))
      else
        (case evolution_chain_of s (row_pokemon r) of
           Inl e \<Rightarrow> Inl e
         | Inr c \<Rightarrow>
             if Some (row_move r) = map_of (evolution_moves s) c then
               Inr (st\<lparr>loaded := append_record r 1 s\<rparr>)
             else Inr st))"

fun load_rows :: "int \<Rightarrow> int \<Rightarrow> move_row list \<Rightarrow> load_state \<Rightarrow> exn + load_state" where
  "load_rows sketch_cost breed_cost [] st = Inr st"
| "load_rows sketch_cost breed_cost (r # rows) st =
     (case load_row sketch_cost breed_cost r st of
        Inl e \<Rightarrow> Inl e
      | Inr st1 \<Rightarrow> load_rows sketch_cost breed_cost rows st1)"

text \<open>
  \<^verbatim>\<open>MovesetSearch.load_pokemon_moves\<close>: the pair it returns and the search object
  after the call.
\<close>

definition load_pokemon_moves ::
  "search \<Rightarrow> move_row list \<Rightarrow> nat option \<Rightarrow> string \<Rightarrow> exn + (moveset \<times> moveset) \<times> search" where
  "load_pokemon_moves s db evolution_chain selection =
     (let s0 = s\<lparr>smeargle_families := {||}\<rparr> in
      case cost_of s0 ''sketch'' of
        Inl e \<Rightarrow> Inl e
      | Inr sketch_cost \<Rightarrow>
     (case cost_of s0 ''breed'' of
        Inl e \<Rightarrow> Inl e
      | Inr breed_cost \<Rightarrow>
     (case load_rows sketch_cost breed_cost (select_rows s0 db evolution_chain selection)
             \<lparr>loaded = s0, easy_moves = {||}, non_egg_moves = {||}\<rparr> of
        Inl e \<Rightarrow> Inl e
      | Inr st \<Rightarrow> Inr ((easy_moves st, non_egg_moves st), loaded st))))"

section \<open>The breeding graph\<close>

text \<open>
  \<^verbatim>\<open>powerset\<close> is the itertools recipe: the combinations of the list for every length
  from 0 to the length of the list, each in the order of \<^verbatim>\<open>itertools.combinations\<close>.
\<close>

fun combinations :: "'a list \<Rightarrow> nat \<Rightarrow> 'a list list" where
  "combinations xs 0 = [[]]"
| "combinations [] (Suc r) = []"
| "combinations (x # xs) (Suc r) = map ((#) x) (combinations xs r) @ combinations xs (Suc r)"

definition powerset :: "'a list \<Rightarrow> 'a list list" where
  "powerset s = concat (map (combinations s) [0..<length s + 1])"

text \<open>
  Part I of \<^verbatim>\<open>construct_breed_graph\<close>: what the lineages of each egg group can pass
  down and what they can learn. The dictionary \<^verbatim>\<open>egg_groups\<close> is read as the list of
  its items, the \<^verbatim>\<open>defaultdict\<close>s of sets are total functions that start empty. The
  table \<^verbatim>\<open>eg2_movepools\<close> is only read by the debug output and is left out.
\<close>

record pools =
  eg1_movepools :: "nat \<Rightarrow> moveset"
  learn_pools :: "nat \<Rightarrow> moveset"
  all_groups :: "nat fset"

definition family_pool :: "search \<Rightarrow> nat \<Rightarrow> moveset" where
  "family_pool s family =
     (if family |\<in>| smeargle_families s then goal_moves s
      else fset_of_list (map fst (movepools s family)) |\<inter>| goal_moves s)"

definition add_family :: "search \<Rightarrow> nat \<times> nat list \<Rightarrow> pools \<Rightarrow> pools" where
  "add_family s entry p =
     (case entry of (family, groups) \<Rightarrow>
        if groups = [] then p
        else if Some family = goal_evolution_chain s then p
        else
          let pool = family_pool s family;
              learnpool = learnpools s family |\<inter>| pool
          in fold (\<lambda>grp p.
                 p\<lparr>eg1_movepools := (eg1_movepools p)(grp := eg1_movepools p grp |\<union>| pool),
                   learn_pools := (learn_pools p)(grp := learn_pools p grp |\<union>| learnpool),
                   all_groups := finsert grp (all_groups p)\<rparr>)
               groups p)"

definition breed_pools :: "search \<Rightarrow> pools" where
  "breed_pools s =
     fold (add_family s) (egg_groups s)
       \<lparr>eg1_movepools = (\<lambda>g. {||}), learn_pools = (\<lambda>g. {||}), all_groups = {||}\<rparr>"

text \<open>
  Part II. The table \<^verbatim>\<open>breeds_required\<close> is a \<^verbatim>\<open>defaultdict(dict)\<close>: a total
  function from egg groups to association lists. Reading with \<^verbatim>\<open>.get(moves, 999)\<close> is
  \<open>br_get\<close>, the assignment \<^verbatim>\<open>breeds_required[group][moves] = v\<close> is \<open>br_set\<close>.
\<close>

type_synonym breeds = "nat \<Rightarrow> (moveset \<times> nat) list"

definition br_get :: "breeds \<Rightarrow> nat \<Rightarrow> moveset \<Rightarrow> nat" where
  "br_get br grp mvs = (case map_of (br grp) mvs of None \<Rightarrow> 999 | Some v \<Rightarrow> v)"

definition br_set :: "breeds \<Rightarrow> nat \<Rightarrow> moveset \<Rightarrow> nat \<Rightarrow> breeds" where
  "br_set br grp mvs v = br(grp := AList.update mvs v (br grp))"

text \<open>
  The nested function \<^verbatim>\<open>handle\<close> writes to the table of the enclosing call; here the
  table is passed in and returned beside the success flag. The argument \<open>path\<close> is the
  path the caller gave; the source rebinds \<^verbatim>\<open>path = path + (group, )\<close> before its
  loops, so that \<^verbatim>\<open>len(path) - 1\<close> inside them is the length of the path given. Sets
  are iterated in ascending order. Every recursive call extends the path by a group that
  is not on it, which bounds the depth by the number of groups.
\<close>

function handle :: "pools \<Rightarrow> nat \<Rightarrow> moveset \<Rightarrow> nat list \<Rightarrow> breeds \<Rightarrow> bool \<times> breeds" where
  "handle p grp mvs path br =
     (if mvs = {||} then (True, br)
      else if br_get br grp mvs \<le> length path then (True, br)
      else
        fold (\<lambda>new_group acc.
            if mvs |\<subseteq>| eg1_movepools p new_group then
              fold (\<lambda>learned acc'.
                  let result = handle p new_group (mvs |-| fset_of_list learned)
                                 (path @ [grp]) (snd acc')
                  in if fst result then
                       (True, br_set (snd result) grp mvs
                                (min (br_get (snd result) grp mvs) (length (path @ [grp]) - 1)))
                     else (fst acc', snd result))
                (powerset (sorted_list_of_fset (mvs |\<inter>| learn_pools p new_group))) acc
            else acc)
          (sorted_list_of_fset (all_groups p |-| fset_of_list (path @ [grp]))) (False, br))"
  by pat_completeness auto
termination
proof (relation "measure (\<lambda>(p, grp, mvs, path, br).
          fcard (all_groups p |-| fset_of_list (path @ [grp])))")
  show "wf (measure (\<lambda>(p, grp, mvs, path, br).
          fcard (all_groups p |-| fset_of_list (path @ [grp]))))" by simp
next
  fix p :: pools and grp :: nat and mvs :: moveset and path :: "nat list" and br :: breeds
    and x :: nat and xa :: "bool \<times> breeds" and xb :: "nat list" and xc :: "bool \<times> breeds"
  assume x: "x \<in> set (sorted_list_of_fset (all_groups p |-| fset_of_list (path @ [grp])))"
  let ?A = "all_groups p |-| fset_of_list (path @ [grp])"
  from x have "x |\<in>| ?A" by simp
  then have "fcard (?A |-| {|x|}) < fcard ?A" by (rule fcard_fminus1_less)
  moreover have "all_groups p |-| fset_of_list ((path @ [grp]) @ [x]) = ?A |-| {|x|}"
    by auto
  ultimately have "fcard (all_groups p |-| fset_of_list ((path @ [grp]) @ [x])) < fcard ?A"
    by simp
  then show "((p, x, mvs |-| fset_of_list xb, path @ [grp], snd xc),
                    (p, grp, mvs, path, br))
      \<in> measure (\<lambda>(p, grp, mvs, path, br).
          fcard (all_groups p |-| fset_of_list (path @ [grp])))"
    by (simp del: fset_of_list_append fset_of_list_simps)
qed

declare handle.simps [simp del]

text \<open>
  The two loops of \<^verbatim>\<open>handle\<close> as functions of their own; \<open>handle_at\<close> is
  \<^verbatim>\<open>handle\<close> with the path in front. They give the recursion an equation that can be
  evaluated.
\<close>

fun learned_loop ::
  "(moveset \<Rightarrow> breeds \<Rightarrow> bool \<times> breeds) \<Rightarrow> nat \<Rightarrow> moveset \<Rightarrow> nat \<Rightarrow> nat list list \<Rightarrow>
     bool \<times> breeds \<Rightarrow> bool \<times> breeds" where
  "learned_loop h grp mvs depth [] acc = acc"
| "learned_loop h grp mvs depth (learned # rest) acc =
     learned_loop h grp mvs depth rest
       (let result = h (mvs |-| fset_of_list learned) (snd acc)
        in if fst result then
             (True, br_set (snd result) grp mvs (min (br_get (snd result) grp mvs) depth))
           else (fst acc, snd result))"

fun groups_loop ::
  "(nat \<Rightarrow> moveset \<Rightarrow> breeds \<Rightarrow> bool \<times> breeds) \<Rightarrow> pools \<Rightarrow> nat \<Rightarrow> moveset \<Rightarrow> nat \<Rightarrow> nat list \<Rightarrow>
     bool \<times> breeds \<Rightarrow> bool \<times> breeds" where
  "groups_loop h p grp mvs depth [] acc = acc"
| "groups_loop h p grp mvs depth (new_group # rest) acc =
     groups_loop h p grp mvs depth rest
       (if mvs |\<subseteq>| eg1_movepools p new_group then
          learned_loop (h new_group) grp mvs depth
            (powerset (sorted_list_of_fset (mvs |\<inter>| learn_pools p new_group))) acc
        else acc)"

definition handle_at :: "pools \<Rightarrow> nat list \<Rightarrow> nat \<Rightarrow> moveset \<Rightarrow> breeds \<Rightarrow> bool \<times> breeds" where
  "handle_at p path grp mvs br = handle p grp mvs path br"

text \<open>
  The final loop over the egg groups of the goal lineage: the search from the group with
  the whole goal moveset, then the assignment of 1 to every moveset made of the egg moves
  and a non-empty set of the other goal moves. \<^verbatim>\<open>egg_groups\<close> is a
  \<^verbatim>\<open>defaultdict(tuple)\<close>, so a lineage without entry has no groups.
\<close>

definition seed :: "search \<Rightarrow> nat \<Rightarrow> breeds \<Rightarrow> breeds" where
  "seed s grp br =
     fold (\<lambda>ms br. if ms \<noteq> [] then br_set br grp (fset_of_list ms |\<union>| egg_moves s) 1 else br)
       (powerset (sorted_list_of_fset (goal_moves s |-| egg_moves s))) br"

definition goal_egg_groups :: "search \<Rightarrow> nat list" where
  "goal_egg_groups s =
     (case goal_evolution_chain s of None \<Rightarrow> [] | Some c \<Rightarrow> lookup_default (egg_groups s) c)"

definition construct_breed_graph :: "search \<Rightarrow> search" where
  "construct_breed_graph s =
     s\<lparr>breeds_required :=
        fold (\<lambda>grp br. seed s grp (snd (handle (breed_pools s) grp (goal_moves s) [] br)))
          (goal_egg_groups s) (\<lambda>g. [])\<rparr>"

section \<open>Duplicate version groups\<close>

text \<open>
  \<^verbatim>\<open>==\<close> on dictionaries: the same keys with equal values, whatever the order. The
  move tables are nested dictionaries down to the lists of records.
\<close>

definition dict_eq :: "('v \<Rightarrow> 'v \<Rightarrow> bool) \<Rightarrow> ('k \<times> 'v) list \<Rightarrow> ('k \<times> 'v) list \<Rightarrow> bool" where
  "dict_eq eqv a b =
     list_all (\<lambda>k. case (map_of a k, map_of b k) of
                      (Some x, Some y) \<Rightarrow> eqv x y
                    | (None, None) \<Rightarrow> True
                    | _ \<Rightarrow> False)
       (map fst a @ map fst b)"

definition moves_eq :: "move_table \<Rightarrow> move_table \<Rightarrow> bool" where
  "moves_eq = dict_eq (dict_eq (=))"

text \<open>
  The dictionary \<^verbatim>\<open>dupes\<close> of one creature. Its values are set objects that the loop
  goes on changing after it has stored them, so the sets live in a store (\<open>objects\<close>,
  by address) and \<open>dupes\<close> maps a version group to the address of its set.
\<close>

record version_classes =
  objects :: "nat \<Rightarrow> nat fset"
  allocated :: nat
  dupes :: "(nat \<times> nat) list"

definition new_class :: "nat \<Rightarrow> version_classes \<Rightarrow> version_classes" where
  "new_class vg vc =
     vc\<lparr>objects := (objects vc)(allocated vc := {|vg|}),
        allocated := Suc (allocated vc),
        dupes := AList.update vg (allocated vc) (dupes vc)\<rparr>"

definition join_class :: "nat \<Rightarrow> nat \<Rightarrow> version_classes \<Rightarrow> version_classes" where
  "join_class a vg vc =
     vc\<lparr>objects := (objects vc)(a := finsert vg (objects vc a)),
        dupes := AList.update vg a (dupes vc)\<rparr>"

text \<open>
  The inner loop. The three variables \<^verbatim>\<open>last\<close>, \<^verbatim>\<open>last_moves\<close> and
  \<^verbatim>\<open>last_gen\<close> are \<^verbatim>\<open>None\<close> together or set together: the address of the
  current set, and the moves and generation of the version group that opened it.
\<close>

fun scan_versions ::
  "search \<Rightarrow> (nat \<times> move_table) list \<Rightarrow> (nat \<times> move_table \<times> int) option \<Rightarrow>
     version_classes \<Rightarrow> exn + version_classes" where
  "scan_versions s [] previous vc = Inr vc"
| "scan_versions s ((vg, mvs) # rest) previous vc =
     (case generation_of s vg of
        Inl e \<Rightarrow> Inl e
      | Inr gen \<Rightarrow>
          (case previous of
             None \<Rightarrow>
               scan_versions s rest (Some (allocated vc, mvs, gen)) (new_class vg vc)
           | Some (a, last_moves, last_gen) \<Rightarrow>
               if gen = last_gen \<and> moves_eq mvs last_moves then
                 scan_versions s rest previous (join_class a vg vc)
               else
                 scan_versions s rest (Some (allocated vc, mvs, gen))
                   (new_class vg vc)))"

fun scan_pokemon ::
  "search \<Rightarrow> (nat \<times> version_table) list \<Rightarrow> (nat \<times> version_classes) list \<Rightarrow>
     exn + (nat \<times> version_classes) list" where
  "scan_pokemon s [] dv = Inr dv"
| "scan_pokemon s ((pkmn, vg_moves) # rest) dv =
     (case scan_versions s vg_moves None \<lparr>objects = (\<lambda>a. {||}), allocated = 0, dupes = []\<rparr> of
        Inl e \<Rightarrow> Inl e
      | Inr vc \<Rightarrow> scan_pokemon s rest (AList.update pkmn vc dv))"

text \<open>\<^verbatim>\<open>MovesetSearch.find_duplicate_versions\<close>; the result is \<^verbatim>\<open>self.duplicate_versions\<close>.\<close>

definition find_duplicate_versions :: "search \<Rightarrow> exn + (nat \<times> version_classes) list" where
  "find_duplicate_versions s = scan_pokemon s (pokemon_moves s) []"

text \<open>\<^verbatim>\<open>self.duplicate_versions[pokemon][version_group]\<close> after the call.\<close>

definition duplicate_versions :: "search \<Rightarrow> nat \<Rightarrow> nat \<Rightarrow> exn + nat fset" where
  "duplicate_versions s pkmn vg =
     (case find_duplicate_versions s of
        Inl e \<Rightarrow> Inl e
      | Inr dv \<Rightarrow>
          (case map_of dv pkmn of
             None \<Rightarrow> Inl (KeyErrorId pkmn)
           | Some vc \<Rightarrow>
               (case map_of (dupes vc) vg of
                  None \<Rightarrow> Inl (KeyErrorId vg)
                | Some a \<Rightarrow> Inr (objects vc a))))"

section \<open>Example data\<close>

text \<open>
  A small search object: one creature (25) in one version group (1) of generation 1, which
  learns move 85 by level-up at level 26 and by machine, and move 57 by a gimmick method.
\<close>

definition example_search :: search where
  "example_search = \<lparr>costs = default_costs,
     pokemon_moves = [(25, [(1, [(85, [(''level-up'', [(26, 20)]), (''machine'', [(0, 40)])]),
                                 (57, [(''stadium-surfing-pikachu'', [(0, 100)])])])])],
     egg_groups = [(10, [1])], evolution_chains = [(25, 10)], evolution_moves = [],
     generation_id_by_version_group = [(1, 1)],
     breeds_required = (\<lambda>g. if g = 1 then [({|85|}, 1)] else []),
     movepools = (\<lambda>c. []),
     learnpools = (\<lambda>c. {||}), smeargle_families = {||}, excluded_families = {||},
     goal_evolution_chain = Some 10, goal_moves = {|85|}, egg_moves = {||}, sketch = 166\<rparr>"

definition example_node :: "int \<Rightarrow> moveset \<Rightarrow> bool \<Rightarrow> PokemonNode" where
  "example_node lv ms fl = \<lparr>pokemon = 25, level = lv, version_group = 1, moves = ms, new_level = fl\<rparr>"

text \<open>The same search with a record whose method \<^verbatim>\<open>expand_learn\<close> does not know.\<close>

definition purified_search :: search where
  "purified_search = example_search\<lparr>pokemon_moves :=
      [(25, [(1, [(85, [(''machine'', [(0, 40)])]), (57, [(''form-change'', [(0, 100)])])])])]\<rparr>"

text \<open>The example search with version groups of generations 1 to 5.\<close>

definition trade_search :: search where
  "trade_search = example_search\<lparr>generation_id_by_version_group :=
     [(1, 1), (2, 1), (3, 2), (5, 3), (7, 3), (8, 4), (11, 5)]\<rparr>"

text \<open>
  A breeding problem. The goal lineage 10 is in egg group 5 and learns neither goal move
  (1 and 2) by itself. Lineage 11 (group 1) gets move 1 as an egg move and learns move 2,
  lineage 12 (group 2) gets both as egg moves, lineage 13 (group 3) learns move 1.
\<close>

definition breeding_search :: search where
  "breeding_search = \<lparr>costs = default_costs, pokemon_moves = [],
     egg_groups = [(10, [5]), (11, [1]), (12, [2]), (13, [3])],
     evolution_chains = [], evolution_moves = [],
     generation_id_by_version_group = [(1, 1)],
     breeds_required = (\<lambda>g. []),
     movepools = (\<lambda>c. if c = 11 then [(1, 400), (2, 20)] else if c = 12 then [(1, 400), (2, 400)]
                       else if c = 13 then [(1, 20)] else []),
     learnpools = (\<lambda>c. if c = 11 then {|2|} else if c = 13 then {|1|} else {||}),
     smeargle_families = {||}, excluded_families = {||},
     goal_evolution_chain = Some 10, goal_moves = {|1, 2|}, egg_moves = {|1, 2|}, sketch = 166\<rparr>"

text \<open>The same problem when the goal lineage itself learns move 1, so that only move 2 is an egg move.\<close>

definition seeded_search :: search where
  "seeded_search = breeding_search\<lparr>
     movepools := (\<lambda>c. if c = 10 then [(1, 20)] else movepools breeding_search c),
     learnpools := (\<lambda>c. if c = 10 then {|1|} else learnpools breeding_search c),
     egg_moves := {|2|}\<rparr>"



text \<open>
  A database of two rows for move 85: a creature of the goal lineage 10 gets it as an egg
  move, a creature of lineage 20 learns it at level 13.
\<close>

definition loading_search :: search where
  "loading_search = example_search\<lparr>pokemon_moves := [], evolution_chains := [(25, 10), (35, 20)]\<rparr>"

definition moves_db :: "move_row list" where
  "moves_db =
     [\<lparr>row_pokemon = 25, row_move = 85, row_version_group = 1, row_method = ''egg'',
        row_level = 0, row_chain = 10\<rparr>,
      \<lparr>row_pokemon = 35, row_move = 85, row_version_group = 1, row_method = ''level-up'',
        row_level = 13, row_chain = 20\<rparr>]"

text \<open>
  A creature with the same moves in the version groups 5 and 7 and one more move in
  version group 6, all three of generation 3; \<open>order\<close> is the order in which the
  dictionary of the creature yields the version groups.
\<close>

definition plain_moves :: move_table where
  "plain_moves = [(85, [(''machine'', [(0, 40)])])]"

definition tutored_moves :: move_table where
  "tutored_moves = [(85, [(''machine'', [(0, 40)])]), (57, [(''tutor'', [(0, 60)])])]"

definition versions_search :: "nat list \<Rightarrow> search" where
  "versions_search order = example_search\<lparr>
     pokemon_moves := [(25, map (\<lambda>vg. (vg, if vg = 6 then tutored_moves else plain_moves)) order)],
     generation_id_by_version_group := [(5, 3), (6, 3), (7, 3)]\<rparr>"

section \<open>Properties of node expansion\<close>

lemma gen_for_items:
  "t \<in> set (fst (gen_for xs body)) \<Longrightarrow> \<exists>x \<in> set xs. t \<in> set (fst (body x))"
  by (induction xs) (auto split: prod.splits option.splits)

lemma gen_for_error:
  "snd (gen_for xs body) = Some e \<Longrightarrow> \<exists>x \<in> set xs. snd (body x) = Some e"
  by (induction xs) (auto split: prod.splits option.splits)

lemma gen_for_aborts:
  "x \<in> set xs \<Longrightarrow> snd (body x) \<noteq> None \<Longrightarrow> snd (gen_for xs body) \<noteq> None"
  by (induction xs) (auto split: prod.splits option.splits)

lemma gen_for_complete:
  "snd (gen_for xs body) = None \<Longrightarrow> x \<in> set xs \<Longrightarrow>
     snd (body x) = None \<and> set (fst (body x)) \<subseteq> set (fst (gen_for xs body))"
  by (induction xs) (auto split: prod.splits option.splits)

lemma learn_level_up_items:
  "t \<in> set (fst (learn_level_up s n mv lc)) \<Longrightarrow>
     (\<exists>meth. fst (snd t) = LearnAction mv meth) \<and> moves (snd (snd t)) = finsert mv (moves n)"
  by (auto simp: learn_level_up_def learn_def Let_def split: prod.splits sum.splits if_splits)

lemma expand_learn_method_items:
  "t \<in> set (fst (expand_learn_method s n mv entry)) \<Longrightarrow>
     (\<exists>meth. fst (snd t) = LearnAction mv meth) \<and> moves (snd (snd t)) = finsert mv (moves n)"
  unfolding expand_learn_method_def
  by (auto simp: learn_def split: prod.splits if_splits
      dest!: gen_for_items learn_level_up_items)

lemma expand_learn_items:
  "t \<in> set (fst (expand_learn s n)) \<Longrightarrow>
     \<exists>mv meth. mv |\<notin>| moves n \<and> fst (snd t) = LearnAction mv meth \<and>
       moves (snd (snd t)) = finsert mv (moves n)"
  unfolding expand_learn_def
  by (fastforce split: prod.splits if_splits dest!: gen_for_items expand_learn_method_items)

lemma expand_forget_items:
  "t \<in> set (fst (expand_forget s n)) \<Longrightarrow>
     \<exists>c mv. mv |\<in>| moves n \<and>
       t = (c, ForgetAction mv, n\<lparr>moves := moves n |-| {|mv|}, new_level := False\<rparr>)"
  unfolding expand_forget_def
  by (auto split: sum.splits dest!: gen_for_items)

lemma expand_learn_is_learn: "t \<in> set (fst (expand_learn s n)) \<Longrightarrow> is_learn t \<and> \<not> is_forget t"
  by (cases t) (auto dest!: expand_learn_items)

lemma expand_forget_is_forget: "t \<in> set (fst (expand_forget s n)) \<Longrightarrow> is_forget t \<and> \<not> is_learn t"
  by (auto dest!: expand_forget_items)

text \<open>
  Claim C1. Expansion of a \<^verbatim>\<open>PokemonNode\<close> is gated by the number of known moves
  alone: with fewer than four known moves (none included) \<^verbatim>\<open>expand\<close> is
  \<^verbatim>\<open>expand_learn\<close> and yields Learn transitions only, with exactly four it is
  \<^verbatim>\<open>expand_forget\<close> and yields Forget transitions only, and no state yields
  transitions of both kinds.
\<close>

theorem expand_gated_by_move_count:
  "(fcard (moves n) < 4 \<longrightarrow>
      expand s n = expand_learn s n \<and> list_all is_learn (fst (expand s n))) \<and>
   (fcard (moves n) = 4 \<longrightarrow>
      expand s n = expand_forget s n \<and> list_all is_forget (fst (expand s n))) \<and>
   \<not> (list_ex is_learn (fst (expand s n)) \<and> list_ex is_forget (fst (expand s n)))"
proof (intro conjI impI)
  assume "fcard (moves n) < 4"
  then show "expand s n = expand_learn s n" by (simp add: expand_def)
  then show "list_all is_learn (fst (expand s n))"
    by (simp add: list_all_iff expand_learn_is_learn)
next
  assume four: "fcard (moves n) = 4"
  then have "moves n \<noteq> {||}" by (auto simp: fcard_fempty)
  with four show "expand s n = expand_forget s n" by (simp add: expand_def)
  then show "list_all is_forget (fst (expand s n))"
    by (simp add: list_all_iff expand_forget_is_forget)
next
  show "\<not> (list_ex is_learn (fst (expand s n)) \<and> list_ex is_forget (fst (expand s n)))"
  proof (cases "expand s n = expand_learn s n")
    case True
    then show ?thesis
      using expand_learn_is_learn [of _ s n] by (auto simp: list_ex_iff)
  next
    case False
    then have "expand s n = expand_forget s n"
      by (simp add: expand_def split: if_splits)
    then show ?thesis
      using expand_forget_is_forget [of _ s n] by (auto simp: list_ex_iff)
  qed
qed


theorem expand_gated_by_move_count_witness:
  "fcard (moves (example_node 0 {||} False)) < 4 \<and>
   expand example_search (example_node 0 {||} False) =
     expand_learn example_search (example_node 0 {||} False) \<and>
   list_all is_learn (fst (expand example_search (example_node 0 {||} False))) \<and>
   length (fst (expand example_search (example_node 0 {||} False))) = 3 \<and>
   fcard (moves (example_node 0 {|1, 2, 3, 4|} False)) = 4 \<and>
   expand example_search (example_node 0 {|1, 2, 3, 4|} False) =
     expand_forget example_search (example_node 0 {|1, 2, 3, 4|} False) \<and>
   list_all is_forget (fst (expand example_search (example_node 0 {|1, 2, 3, 4|} False))) \<and>
   length (fst (expand example_search (example_node 0 {|1, 2, 3, 4|} False))) = 4"
proof -
  have few: "fcard (moves (example_node 0 {||} False)) < 4" by code_simp
  have full: "fcard (moves (example_node 0 {|1, 2, 3, 4|} False)) = 4" by code_simp
  have l3: "length (fst (expand example_search (example_node 0 {||} False))) = 3" by code_simp
  have l4: "length (fst (expand example_search (example_node 0 {|1, 2, 3, 4|} False))) = 4"
    by code_simp
  show ?thesis
    using few full l3 l4
      expand_gated_by_move_count [of "example_node 0 {||} False" example_search]
      expand_gated_by_move_count [of "example_node 0 {|1, 2, 3, 4|} False" example_search]
    by blast
qed

lemma InitialNode_expand_items:
  "t \<in> set (fst (InitialNode_expand s)) \<Longrightarrow> moves (snd (snd t)) = {||}"
  unfolding InitialNode_expand_def
  by (auto split: prod.splits option.splits if_splits dest!: gen_for_items)

lemma reachable_at_most_four: "reachable s n \<Longrightarrow> fcard (moves n) \<le> 4"
proof (induction rule: reachable.induct)
  case (start c a n)
  then show ?case by (auto dest!: InitialNode_expand_items simp: fcard_fempty)
next
  case (step n c a n')
  show ?case
  proof (cases "fcard (moves n) < 4")
    case True
    then have "expand s n = expand_learn s n" by (simp add: expand_def)
    with step.hyps(2) obtain mv where "moves n' = finsert mv (moves n)"
      by (auto dest!: expand_learn_items)
    with True show ?thesis by (simp add: fcard_finsert_if)
  next
    case False
    with step.IH have "fcard (moves n) = 4" by simp
    then have "expand s n = expand_forget s n" by (auto simp: expand_def fcard_fempty)
    with step.hyps(2) obtain mv where "moves n' = moves n |-| {|mv|}"
      by (auto dest!: expand_forget_items)
    with step.IH show ?thesis
      using fcard_fminus1_le [of "moves n" mv] by simp
  qed
qed

lemma expand_items:
  assumes "(c, a, n') \<in> set (fst (expand s n))"
  shows "(\<exists>mv meth. a = LearnAction mv meth \<and> mv |\<notin>| moves n \<and> moves n' = finsert mv (moves n)) \<or>
         (\<exists>mv. a = ForgetAction mv \<and> mv |\<in>| moves n \<and> moves n' = moves n |-| {|mv|})"
proof (cases "expand s n = expand_learn s n")
  case True
  with assms show ?thesis by (auto dest!: expand_learn_items)
next
  case False
  then have "expand s n = expand_forget s n" by (simp add: expand_def split: if_splits)
  with assms show ?thesis by (auto dest!: expand_forget_items)
qed

text \<open>
  Claim C2. Every state reachable from the initial pseudo-state knows at most four moves,
  and every transition a state yields changes the known moves by exactly one move: a Learn
  transition adds the learned move, which was not known, and a Forget transition removes
  the forgotten move, which was known.
\<close>

theorem known_moves_invariant:
  "(reachable s n \<longrightarrow> fcard (moves n) \<le> 4) \<and>
   (\<forall>c a n'. (c, a, n') \<in> set (fst (expand s n)) \<longrightarrow>
      (case a of
         LearnAction mv meth \<Rightarrow> mv |\<notin>| moves n \<and> moves n' = finsert mv (moves n)
       | ForgetAction mv \<Rightarrow> mv |\<in>| moves n \<and> moves n' = moves n |-| {|mv|}
       | StartAction pk vg \<Rightarrow> False))"
  using reachable_at_most_four [of s n] expand_items [of _ _ _ s n]
  by (fastforce split: action.splits)

theorem known_moves_invariant_witness:
  "reachable example_search (example_node 26 {|85|} True) \<and>
   fcard (moves (example_node 26 {|85|} True)) \<le> 4 \<and>
   (46, LearnAction 85 ''level-up'', example_node 26 {|85|} True)
      \<in> set (fst (expand example_search (example_node 0 {||} False))) \<and>
   85 |\<notin>| moves (example_node 0 {||} False) \<and>
   moves (example_node 26 {|85|} True) = finsert 85 (moves (example_node 0 {||} False)) \<and>
   (300, ForgetAction 3, example_node 0 {|1, 2, 4|} False)
      \<in> set (fst (expand example_search (example_node 0 {|1, 2, 3, 4|} False))) \<and>
   3 |\<in>| moves (example_node 0 {|1, 2, 3, 4|} False) \<and>
   moves (example_node 0 {|1, 2, 4|} False) = moves (example_node 0 {|1, 2, 3, 4|} False) |-| {|3|}"
proof -
  have s0: "(0, StartAction 25 1, example_node 0 {||} False)
              \<in> set (fst (InitialNode_expand example_search))"
    by code_simp
  have s1: "(46, LearnAction 85 ''level-up'', example_node 26 {|85|} True)
              \<in> set (fst (expand example_search (example_node 0 {||} False)))"
    by code_simp
  have s2: "(300, ForgetAction 3, example_node 0 {|1, 2, 4|} False)
      \<in> set (fst (expand example_search (example_node 0 {|1, 2, 3, 4|} False)))"
    by code_simp
  have r: "reachable example_search (example_node 26 {|85|} True)"
    using reachable.step [OF reachable.start [OF s0] s1] .
  show ?thesis
    using r s1 s2
      known_moves_invariant [of example_search "example_node 26 {|85|} True"]
      known_moves_invariant [of example_search "example_node 0 {||} False"]
      known_moves_invariant [of example_search "example_node 0 {|1, 2, 3, 4|} False"]
    by fastforce
qed

text \<open>
  Claim C5. A level-up record \<^verbatim>\<open>(lv, cost)\<close> of a move the node does not know,
  in an expansion that runs to its end: when \<^verbatim>\<open>lv\<close> exceeds the node's level, or
  equals it with the just-leveled flag set, the record yields one transition, of cost
  \<^verbatim>\<open>cost + (lv - level) * per-level\<close>, to a state at level \<^verbatim>\<open>lv\<close> with the
  flag set; otherwise it yields one \<^verbatim>\<open>relearn\<close> transition at the relearn cost,
  to a state at the same level with the flag cleared.
\<close>

theorem level_up_record_transition:
  assumes complete: "snd (expand_learn s n) = None"
    and entry: "(mv, methods) \<in> set (learn_table s n)"
    and unknown: "mv |\<notin>| moves n"
    and meth: "(''level-up'', levels_costs) \<in> set methods"
    and rec: "(lv, cost) \<in> set levels_costs"
  shows "if level n < lv \<or> (lv = level n \<and> new_level n)
         then \<exists>per_level. cost_of s ''per-level'' = Inr per_level \<and>
           fst (learn_level_up s n mv (lv, cost)) =
             [(cost + (lv - level n) * per_level, LearnAction mv ''level-up'',
               n\<lparr>level := lv, moves := finsert mv (moves n), new_level := True\<rparr>)] \<and>
           (cost + (lv - level n) * per_level, LearnAction mv ''level-up'',
               n\<lparr>level := lv, moves := finsert mv (moves n), new_level := True\<rparr>)
             \<in> set (fst (expand_learn s n))
         else \<exists>relearn. cost_of s ''relearn'' = Inr relearn \<and>
           fst (learn_level_up s n mv (lv, cost)) =
             [(relearn, LearnAction mv ''relearn'',
               n\<lparr>moves := finsert mv (moves n), new_level := False\<rparr>)] \<and>
           (relearn, LearnAction mv ''relearn'',
               n\<lparr>moves := finsert mv (moves n), new_level := False\<rparr>)
             \<in> set (fst (expand_learn s n))"
proof -
  let ?body = "\<lambda>(mv, methods).
          if mv |\<in>| moves n then ([], None)
          else gen_for methods (expand_learn_method s n mv)"
  have e: "expand_learn s n = gen_for (learn_table s n) ?body"
    by (simp add: expand_learn_def learn_table_def)
  from gen_for_complete [OF complete [unfolded e] entry] unknown
  have 1: "snd (gen_for methods (expand_learn_method s n mv)) = None"
    and 2: "set (fst (gen_for methods (expand_learn_method s n mv))) \<subseteq> set (fst (expand_learn s n))"
    by (simp_all add: e)
  have m: "expand_learn_method s n mv (''level-up'', levels_costs) =
             gen_for levels_costs (learn_level_up s n mv)"
    by (simp add: expand_learn_method_def)
  from gen_for_complete [OF 1 meth]
  have 3: "snd (gen_for levels_costs (learn_level_up s n mv)) = None"
    and 4: "set (fst (gen_for levels_costs (learn_level_up s n mv)))
              \<subseteq> set (fst (gen_for methods (expand_learn_method s n mv)))"
    by (simp_all add: m)
  from gen_for_complete [OF 3 rec]
  have 5: "snd (learn_level_up s n mv (lv, cost)) = None"
    and 6: "set (fst (learn_level_up s n mv (lv, cost)))
              \<subseteq> set (fst (gen_for levels_costs (learn_level_up s n mv)))"
    by simp_all
  have sub: "set (fst (learn_level_up s n mv (lv, cost))) \<subseteq> set (fst (expand_learn s n))"
    using 2 4 6 by blast
  show ?thesis
  proof (cases "level n < lv \<or> (lv = level n \<and> new_level n)")
    case True
    with 5 obtain per_level where c: "cost_of s ''per-level'' = Inr per_level"
      by (auto simp: learn_level_up_def Let_def split: sum.splits)
    from True c have "fst (learn_level_up s n mv (lv, cost)) =
             [(cost + (lv - level n) * per_level, LearnAction mv ''level-up'',
               n\<lparr>level := lv, moves := finsert mv (moves n), new_level := True\<rparr>)]"
      by (auto simp: learn_level_up_def learn_def Let_def)
    with sub c True show ?thesis by auto
  next
    case False
    with 5 obtain relearn where c: "cost_of s ''relearn'' = Inr relearn"
      by (auto simp: learn_level_up_def Let_def split: sum.splits if_splits)
    from False c have "fst (learn_level_up s n mv (lv, cost)) =
             [(relearn, LearnAction mv ''relearn'',
               n\<lparr>moves := finsert mv (moves n), new_level := False\<rparr>)]"
      by (auto simp: learn_level_up_def learn_def Let_def)
    with sub c False show ?thesis by auto
  qed
qed

theorem level_up_record_transition_witness:
  "(46, LearnAction 85 ''level-up'', example_node 26 {|85|} True)
      \<in> set (fst (expand_learn example_search (example_node 0 {||} False))) \<and>
   (20, LearnAction 85 ''level-up'', example_node 26 {|85|} True)
      \<in> set (fst (expand_learn example_search (example_node 26 {||} True))) \<and>
   (150, LearnAction 85 ''relearn'', example_node 26 {|85|} False)
      \<in> set (fst (expand_learn example_search (example_node 26 {||} False))) \<and>
   (150, LearnAction 85 ''relearn'', example_node 30 {|85|} False)
      \<in> set (fst (expand_learn example_search (example_node 30 {||} True)))"
proof -
  let ?ms = "[(''level-up'', [(26, 20)]), (''machine'', [(0, 40)])]"
  have c: "snd (expand_learn example_search (example_node lv {||} fl)) = None" for lv fl
    by (cases fl) (simp_all add: example_search_def example_node_def expand_learn_def
        learn_table_def lookup_default_def expand_learn_method_def learn_level_up_def cost_of_def
        default_costs_def Let_def)
  have t: "(85, ?ms) \<in> set (learn_table example_search (example_node lv {||} fl))" for lv fl
    by (simp add: example_search_def example_node_def learn_table_def lookup_default_def)
  have u: "85 |\<notin>| moves (example_node lv {||} fl)" for lv fl
    by (simp add: example_node_def)
  have pl: "cost_of example_search ''per-level'' = Inr 1"
    and rl: "cost_of example_search ''relearn'' = Inr 150"
    by (simp_all add: cost_of_def example_search_def default_costs_def)
  have m: "(''level-up'', [(26, 20)]) \<in> set ?ms" and r: "(26, 20) \<in> set [(26::int, 20::int)]"
    by simp_all
  show ?thesis
    using level_up_record_transition [OF c [of 0 False] t u m r]
      level_up_record_transition [OF c [of 26 True] t u m r]
      level_up_record_transition [OF c [of 26 False] t u m r]
      level_up_record_transition [OF c [of 30 True] t u m r]
    by (simp add: pl rl example_node_def)
qed

lemma expand_learn_method_unknown:
  "method \<notin> set recognized_methods \<Longrightarrow>
     expand_learn_method s n mv (method, lcs) =
       ([], Some (ValueError (''Unknown move method '' @ method)))"
  by (simp add: expand_learn_method_def recognized_methods_def)

lemma gen_for_no_error: "\<forall>x. snd (body x) = None \<Longrightarrow> snd (gen_for xs body) = None"
proof (induction xs)
  case Nil
  show ?case by simp
next
  case (Cons a xs)
  from Cons.prems obtain ys where "body a = (ys, None)"
    by (cases "body a") (metis snd_conv)
  with Cons show ?case by (cases "gen_for xs body") simp
qed

lemma learn_level_up_error:
  "snd (learn_level_up s n mv lc) = Some e \<Longrightarrow> e = KeyError ''per-level'' \<or> e = KeyError ''relearn''"
  by (auto simp: learn_level_up_def cost_of_def Let_def
      split: prod.splits sum.splits if_splits option.splits)

lemma expand_learn_method_error:
  assumes "snd (expand_learn_method s n mv entry) = Some e"
  shows "(\<exists>m. m \<notin> set recognized_methods \<and> e = ValueError (''Unknown move method '' @ m)) \<or>
         e = KeyError ''per-level'' \<or> e = KeyError ''relearn''"
proof (cases entry)
  case (Pair meth lcs)
  show ?thesis
  proof (cases "meth \<in> set recognized_methods")
    case False
    with assms Pair show ?thesis by (auto simp: expand_learn_method_unknown)
  next
    case True
    have simple: "snd (gen_for lcs (\<lambda>(lv, cost). ([f lv cost], None))) = None" for f :: "int \<Rightarrow> int \<Rightarrow> transition"
      by (rule gen_for_no_error) (simp split: prod.splits)
    from True assms Pair show ?thesis
      by (auto simp: expand_learn_method_def recognized_methods_def simple
          split: if_splits dest!: gen_for_error learn_level_up_error)
  qed
qed

text \<open>
  Claim C8, as the code has it. A node with fewer than four known moves whose table holds,
  for a move it does not know, a record with a method outside the recognized set: its
  expansion ends with an exception. The exception is the built-in
  \<^verbatim>\<open>ValueError('Unknown move method ...')\<close>, or the \<^verbatim>\<open>KeyError\<close> of a cost
  missing from the cost table that a level-up record met first; it is never a
  \<^verbatim>\<open>MovesNotLearnable\<close>.
\<close>

theorem unknown_method_aborts:
  assumes few: "fcard (moves n) < 4"
    and entry: "(mv, methods) \<in> set (learn_table s n)"
    and unknown: "mv |\<notin>| moves n"
    and meth: "(method, lcs) \<in> set methods"
    and unrecognized: "method \<notin> set recognized_methods"
  shows "\<exists>e. snd (expand s n) = Some e \<and> \<not> is_MovesNotLearnable e \<and>
           ((\<exists>m. m \<notin> set recognized_methods \<and> e = ValueError (''Unknown move method '' @ m)) \<or>
            e = KeyError ''per-level'' \<or> e = KeyError ''relearn'')"
proof -
  let ?body = "\<lambda>(mv, methods).
          if mv |\<in>| moves n then ([], None)
          else gen_for methods (expand_learn_method s n mv)"
  have e: "expand s n = gen_for (learn_table s n) ?body"
    using few by (simp add: expand_def expand_learn_def learn_table_def)
  have "snd (expand_learn_method s n mv (method, lcs)) \<noteq> None"
    using unrecognized by (simp add: expand_learn_method_unknown)
  then have "snd (gen_for methods (expand_learn_method s n mv)) \<noteq> None"
    using meth by (rule gen_for_aborts [rotated])
  then have "snd (?body (mv, methods)) \<noteq> None"
    using unknown by simp
  then have "snd (expand s n) \<noteq> None"
    unfolding e using entry by (rule gen_for_aborts [rotated])
  then obtain ex where ex: "snd (expand s n) = Some ex" by auto
  then obtain x where "x \<in> set (learn_table s n)" "snd (?body x) = Some ex"
    unfolding e by (auto dest!: gen_for_error)
  then obtain mv' entry' where "snd (expand_learn_method s n mv' entry') = Some ex"
    by (auto split: prod.splits if_splits dest!: gen_for_error)
  from expand_learn_method_error [OF this] ex show ?thesis by auto
qed

text \<open>
  Claim C8 as stated fails: the exception raised for the method \<^verbatim>\<open>form-change\<close> is
  a plain \<^verbatim>\<open>ValueError\<close>, not a \<^verbatim>\<open>MovesNotLearnable\<close>; and a node that
  knows four moves, or that already knows the move of the record, expands without any
  exception.
\<close>

theorem unknown_method_counterexample:
  "has_unrecognized_method purified_search (example_node 0 {||} False) \<and>
   snd (expand purified_search (example_node 0 {||} False))
     = Some (ValueError ''Unknown move method form-change'') \<and>
   \<not> is_MovesNotLearnable (ValueError ''Unknown move method form-change'') \<and>
   has_unrecognized_method purified_search (example_node 0 {|1, 2, 3, 85|} False) \<and>
   snd (expand purified_search (example_node 0 {|1, 2, 3, 85|} False)) = None \<and>
   has_unrecognized_method purified_search (example_node 0 {|57|} False) \<and>
   snd (expand purified_search (example_node 0 {|57|} False)) = None"
  by code_simp

theorem unknown_method_aborts_witness:
  "fcard (moves (example_node 0 {||} False)) < 4 \<and>
   (57, [(''form-change'', [(0, 100)])]) \<in> set (learn_table purified_search (example_node 0 {||} False)) \<and>
   57 |\<notin>| moves (example_node 0 {||} False) \<and>
   ''form-change'' \<notin> set recognized_methods \<and>
   (\<exists>e. snd (expand purified_search (example_node 0 {||} False)) = Some e \<and>
      \<not> is_MovesNotLearnable e)"
proof -
  have 1: "fcard (moves (example_node 0 {||} False)) < 4" by code_simp
  have 2: "(57, [(''form-change'', [(0, 100)])]) \<in> set (learn_table purified_search (example_node 0 {||} False))"
    by code_simp
  have 3: "57 |\<notin>| moves (example_node 0 {||} False)" by code_simp
  have 4: "(''form-change'', [(0, 100)]) \<in> set [(''form-change'', [(0::int, 100::int)])]" by simp
  have 5: "''form-change'' \<notin> set recognized_methods" by code_simp
  from unknown_method_aborts [OF 1 2 3 4 5] 1 2 3 5 show ?thesis by blast
qed

section \<open>Properties of trading and of the setup\<close>

text \<open>
  Claim C3. With both generations and the two costs known, \<^verbatim>\<open>trade_cost\<close>
  returns, reading the cases in the claim's order, each for the inputs no earlier case
  decides: the trade cost for equal generations; impossible when the generations differ
  and a thing's generation exceeds the target's; otherwise, from generation 1 or 2, the
  trade cost into generation 1 or 2 and impossible into any other; from any other
  generation, impossible into generation 1 or 2, backwards, or more than one generation
  forwards; and from generation 3 on, trade plus transfer exactly for the next generation.
\<close>

theorem trade_cost_cases:
  assumes "generation_of s version_group_from = Inr gen_from"
    and "generation_of s version_group_to = Inr gen_to"
    and "cost_of s ''trade'' = Inr trade"
    and "cost_of s ''transfer'' = Inr transfer"
  shows "(gen_from = gen_to \<longrightarrow>
            trade_cost s version_group_from version_group_to things = Inr (Some trade)) \<and>
         (gen_from \<noteq> gen_to \<and> (\<exists>g \<in> set things. g > gen_to) \<longrightarrow>
            trade_cost s version_group_from version_group_to things = Inr None) \<and>
         (gen_from \<noteq> gen_to \<and> (\<forall>g \<in> set things. g \<le> gen_to) \<longrightarrow>
            (gen_from \<in> {1, 2} \<longrightarrow>
               trade_cost s version_group_from version_group_to things =
                 (if gen_to \<in> {1, 2} then Inr (Some trade) else Inr None)) \<and>
            (gen_from \<notin> {1, 2} \<and> gen_to \<in> {1, 2} \<longrightarrow>
               trade_cost s version_group_from version_group_to things = Inr None) \<and>
            (gen_from \<notin> {1, 2} \<and> gen_from > gen_to \<longrightarrow>
               trade_cost s version_group_from version_group_to things = Inr None) \<and>
            (gen_from \<notin> {1, 2} \<and> gen_to - gen_from > 1 \<longrightarrow>
               trade_cost s version_group_from version_group_to things = Inr None) \<and>
            (3 \<le> gen_from \<longrightarrow>
               trade_cost s version_group_from version_group_to things =
                 (if gen_to = gen_from + 1 then Inr (Some (trade + transfer)) else Inr None)))"
proof -
  have ex: "list_ex (\<lambda>gen. gen > gen_to) things \<longleftrightarrow> (\<exists>g \<in> set things. g > gen_to)"
    by (simp add: list_ex_iff)
  have no: "(\<forall>g \<in> set things. g \<le> gen_to) \<Longrightarrow> \<not> list_ex (\<lambda>gen. gen > gen_to) things"
    by (auto simp: list_ex_iff)
  show ?thesis
    using assms no by (simp add: trade_cost_def ex)
qed

theorem trade_cost_cases_witness:
  "trade_cost trade_search 1 2 [] = Inr (Some 200) \<and>
   trade_cost trade_search 1 3 [2] = Inr (Some 200) \<and>
   trade_cost trade_search 3 1 [2] = Inr None \<and>
   trade_cost trade_search 3 1 [1] = Inr (Some 200) \<and>
   trade_cost trade_search 3 5 [] = Inr None \<and>
   trade_cost trade_search 5 3 [] = Inr None \<and>
   trade_cost trade_search 8 5 [] = Inr None \<and>
   trade_cost trade_search 5 11 [] = Inr None \<and>
   trade_cost trade_search 5 8 [3, 4] = Inr (Some 400) \<and>
   trade_cost trade_search 5 8 [5] = Inr None"
proof -
  have g: "generation_of trade_search 1 = Inr 1" "generation_of trade_search 2 = Inr 1"
    "generation_of trade_search 3 = Inr 2" "generation_of trade_search 5 = Inr 3"
    "generation_of trade_search 8 = Inr 4" "generation_of trade_search 11 = Inr 5"
    by (simp_all add: generation_of_def trade_search_def example_search_def)
  have c: "cost_of trade_search ''trade'' = Inr 200" "cost_of trade_search ''transfer'' = Inr 200"
    by (simp_all add: cost_of_def trade_search_def example_search_def default_costs_def)
  show ?thesis
    using trade_cost_cases [OF g(1) g(2) c, of "[]"]
      trade_cost_cases [OF g(1) g(3) c, of "[2]"]
      trade_cost_cases [OF g(3) g(1) c, of "[2]"]
      trade_cost_cases [OF g(3) g(1) c, of "[1]"]
      trade_cost_cases [OF g(3) g(4) c, of "[]"]
      trade_cost_cases [OF g(4) g(3) c, of "[]"]
      trade_cost_cases [OF g(5) g(4) c, of "[]"]
      trade_cost_cases [OF g(4) g(6) c, of "[]"]
      trade_cost_cases [OF g(4) g(5) c, of "[3, 4]"]
      trade_cost_cases [OF g(4) g(5) c, of "[5]"]
    by simp
qed

text \<open>
  Claim C4 fails on the code for more than four moves. A request with five moves is
  rejected before any search state is built and iterating the search raises the stored
  condition, but the condition is \<^verbatim>\<open>NoMoves('Too many moves specified.')\<close>, the
  same class as for an empty request, not \<^verbatim>\<open>TooManyMoves\<close>.
\<close>

theorem too_many_moves_raises_NoMoves:
  "init [1, 2, 3, 4, 5 :: nat] rest =
     \<lparr>generator = None, error = Some (NoMoves ''Too many moves specified.'')\<rparr> \<and>
   iter (init [1, 2, 3, 4, 5 :: nat] rest) = Inl (NoMoves ''Too many moves specified.'') \<and>
   is_NoMoves (NoMoves ''Too many moves specified.'') \<and>
   \<not> is_TooManyMoves (NoMoves ''Too many moves specified.'') \<and>
   iter (init ([] :: nat list) rest) = Inl (NoMoves ''No moves specified.'')"
  by (simp add: init_def iter_def)

section \<open>Properties of the breeding graph\<close>

lemma learned_loop_fold:
  "learned_loop h grp mvs depth ls acc =
     fold (\<lambda>learned acc'.
             let result = h (mvs |-| fset_of_list learned) (snd acc')
             in if fst result then
                  (True, br_set (snd result) grp mvs (min (br_get (snd result) grp mvs) depth))
                else (fst acc', snd result)) ls acc"
  by (induction ls arbitrary: acc) simp_all

lemma groups_loop_fold:
  "groups_loop h p grp mvs depth gs acc =
     fold (\<lambda>new_group acc.
             if mvs |\<subseteq>| eg1_movepools p new_group then
               learned_loop (h new_group) grp mvs depth
                 (powerset (sorted_list_of_fset (mvs |\<inter>| learn_pools p new_group))) acc
             else acc) gs acc"
  by (induction gs arbitrary: acc) simp_all

lemma handle_at_code [code]:
  "handle_at p path grp mvs br =
     (if mvs = {||} then (True, br)
      else if br_get br grp mvs \<le> length path then (True, br)
      else groups_loop (handle_at p (path @ [grp])) p grp mvs (length path)
             (sorted_list_of_fset (all_groups p |-| fset_of_list (path @ [grp]))) (False, br))"
  unfolding handle_at_def
  by (subst handle.simps) (simp add: groups_loop_fold learned_loop_fold Let_def cong: if_cong)

lemma handle_code [code]: "handle p grp mvs path br = handle_at p path grp mvs br"
  by (simp add: handle_at_def)

lemma combinations_filter: "filter P xs \<in> set (combinations xs (length (filter P xs)))"
proof (induction xs)
  case Nil
  show ?case by simp
next
  case (Cons x xs)
  show ?case
  proof (cases "P x")
    case True
    with Cons show ?thesis by simp
  next
    case False
    show ?thesis
    proof (cases "length (filter P xs)")
      case 0
      with False show ?thesis by simp
    next
      case (Suc n)
      with False Cons show ?thesis by simp
    qed
  qed
qed

lemma powerset_filter: "filter P xs \<in> set (powerset xs)"
proof -
  have "length (filter P xs) \<in> set [0..<length xs + 1]"
    unfolding set_upt atLeastLessThan_iff using length_filter_le [of P xs] by arith
  with combinations_filter [of P xs] show ?thesis
    unfolding powerset_def set_concat set_map by blast
qed

lemma powerset_complete:
  assumes "S |\<subseteq>| A"
  shows "\<exists>ms \<in> set (powerset (sorted_list_of_fset A)). fset_of_list ms = S"
proof -
  let ?ms = "filter (\<lambda>x. x |\<in>| S) (sorted_list_of_fset A)"
  have "fset_of_list ?ms = S"
    using assms by (auto simp: fset_of_list_elem)
  with powerset_filter [of "\<lambda>x. x |\<in>| S" "sorted_list_of_fset A"] show ?thesis by blast
qed

lemma br_set_one_kept:
  "map_of (br g') k = Some 1 \<Longrightarrow> map_of (br_set br grp k' 1 g') k = Some 1"
  by (auto simp: br_set_def update_conv')

lemma br_set_min_kept:
  "map_of (br g') k = Some 1 \<Longrightarrow> g' \<noteq> grp \<or> 1 \<le> d \<Longrightarrow>
     map_of (br_set br grp mvs (min (br_get br grp mvs) d) g') k = Some 1"
  by (auto simp: br_set_def br_get_def update_conv')

lemma seed_fold_keeps:
  "map_of (br g') k = Some 1 \<Longrightarrow>
     map_of (fold (\<lambda>ms br. if ms \<noteq> [] then br_set br grp (f ms) 1 else br) xs br g') k = Some 1"
proof (induction xs arbitrary: br)
  case Nil
  then show ?case by simp
next
  case (Cons a xs)
  let ?br = "if a \<noteq> [] then br_set br grp (f a) 1 else br"
  have "map_of (?br g') k = Some 1"
    using Cons.prems by (auto simp: br_set_def update_conv')
  with Cons.IH [of ?br] show ?case by simp
qed

lemma seed_fold_sets:
  "ms \<in> set xs \<Longrightarrow> ms \<noteq> [] \<Longrightarrow>
     map_of (fold (\<lambda>ms br. if ms \<noteq> [] then br_set br grp (f ms) 1 else br) xs br grp) (f ms) = Some 1"
proof (induction xs arbitrary: br)
  case Nil
  then show ?case by simp
next
  case (Cons x xs)
  show ?case
  proof (cases "x = ms")
    case True
    have "map_of (br_set br grp (f ms) 1 grp) (f ms) = Some 1"
      by (simp add: br_set_def update_conv')
    then show ?thesis using True Cons.prems(2) by (simp add: seed_fold_keeps)
  next
    case False
    with Cons.prems have "ms \<in> set xs" by simp
    from Cons.IH [OF this Cons.prems(2)] show ?thesis by simp
  qed
qed

lemma seed_keeps: "map_of (br g') k = Some 1 \<Longrightarrow> map_of (seed s grp br g') k = Some 1"
  unfolding seed_def by (rule seed_fold_keeps)

lemma seed_sets:
  assumes "S \<noteq> {||}" and "S |\<subseteq>| goal_moves s |-| egg_moves s"
  shows "map_of (seed s grp br grp) (S |\<union>| egg_moves s) = Some 1"
proof -
  from powerset_complete [OF assms(2)] obtain ms
    where ms: "ms \<in> set (powerset (sorted_list_of_fset (goal_moves s |-| egg_moves s)))"
      and S: "fset_of_list ms = S" by blast
  from S assms(1) have "ms \<noteq> []" by auto
  from seed_fold_sets [OF ms this, of grp "\<lambda>ms. fset_of_list ms |\<union>| egg_moves s" br]
  show ?thesis by (simp add: seed_def S)
qed

lemma fold_invariant:
  assumes "I a" and "\<And>x a. x \<in> set xs \<Longrightarrow> I a \<Longrightarrow> I (f x a)"
  shows "I (fold f xs a)"
  using assms by (induction xs arbitrary: a) simp_all

lemma handle_keeps_one:
  "path \<noteq> [] \<or> g' \<noteq> grp \<Longrightarrow> map_of (br g') k = Some 1 \<Longrightarrow>
     map_of (snd (handle p grp mvs path br) g') k = Some 1"
proof (induction p grp mvs path br rule: handle.induct)
  case (1 p grp mvs path br)
  show ?case
  proof (cases "mvs = {||} \<or> br_get br grp mvs \<le> length path")
    case True
    with "1.prems"(2) show ?thesis
      by (subst handle.simps) auto
  next
    case False
    let ?I = "\<lambda>acc :: bool \<times> breeds. map_of (snd acc g') k = Some 1"
    let ?inner = "\<lambda>new_group learned (acc' :: bool \<times> breeds).
        let result = handle p new_group (mvs |-| fset_of_list learned) (path @ [grp]) (snd acc')
        in if fst result then
             (True, br_set (snd result) grp mvs
                      (min (br_get (snd result) grp mvs) (length (path @ [grp]) - 1)))
           else (fst acc', snd result)"
    let ?outer = "\<lambda>new_group (acc :: bool \<times> breeds).
        if mvs |\<subseteq>| eg1_movepools p new_group then
          fold (?inner new_group)
            (powerset (sorted_list_of_fset (mvs |\<inter>| learn_pools p new_group))) acc
        else acc"
    let ?groups = "sorted_list_of_fset (all_groups p |-| fset_of_list (path @ [grp]))"
    have d: "g' \<noteq> grp \<or> 1 \<le> length (path @ [grp]) - 1"
      using "1.prems"(1) by (cases path) auto
    have inner: "?I (?inner x learned acc)"
      if "x \<in> set ?groups" and "mvs |\<subseteq>| eg1_movepools p x"
        and "learned \<in> set (powerset (sorted_list_of_fset (mvs |\<inter>| learn_pools p x)))"
        and "?I acc" for x learned acc
    proof -
      let ?r = "handle p x (mvs |-| fset_of_list learned) (path @ [grp]) (snd acc)"
      have "?I ?r"
        by (rule "1.IH") (use False that "1.prems" in auto)
      then show ?thesis
        using br_set_min_kept [of "snd ?r" g' k grp "length (path @ [grp]) - 1" mvs] d
        by (simp add: Let_def)
    qed
    have outer: "?I (?outer x acc)" if "x \<in> set ?groups" and "?I acc" for x acc
    proof (cases "mvs |\<subseteq>| eg1_movepools p x")
      case True
      have "?I (fold (?inner x)
                 (powerset (sorted_list_of_fset (mvs |\<inter>| learn_pools p x))) acc)"
        by (rule fold_invariant [where I = ?I]) (use that True inner in blast)+
      with True show ?thesis by simp
    next
      case False
      with that show ?thesis by simp
    qed
    have "?I (fold ?outer ?groups (False, br))"
      by (rule fold_invariant [where I = ?I]) (use "1.prems"(2) outer in simp_all)
    moreover have "handle p grp mvs path br = fold ?outer ?groups (False, br)"
      using False by (subst handle.simps) simp
    ultimately show ?thesis by (simp)
  qed
qed

lemma breed_loop_seeded:
  assumes "S \<noteq> {||}" and "S |\<subseteq>| goal_moves s |-| egg_moves s"
  shows "g \<in> set gs \<or> map_of (br g) (S |\<union>| egg_moves s) = Some 1 \<Longrightarrow>
     map_of (fold (\<lambda>grp br. seed s grp (snd (handle P grp (goal_moves s) [] br))) gs br g)
       (S |\<union>| egg_moves s) = Some 1"
proof (induction gs arbitrary: br)
  case Nil
  then show ?case by simp
next
  case (Cons a gs)
  let ?br = "seed s a (snd (handle P a (goal_moves s) [] br))"
  have "g \<in> set gs \<or> map_of (?br g) (S |\<union>| egg_moves s) = Some 1"
  proof (cases "g = a")
    case True
    then show ?thesis using seed_sets [OF assms] by simp
  next
    case False
    show ?thesis
    proof (cases "g \<in> set gs")
      case True
      then show ?thesis by simp
    next
      case nin: False
      with False Cons.prems have "map_of (br g) (S |\<union>| egg_moves s) = Some 1" by simp
      with False have "map_of (snd (handle P a (goal_moves s) [] br) g) (S |\<union>| egg_moves s) = Some 1"
        by (intro handle_keeps_one) simp_all
      then show ?thesis by (simp add: seed_keeps)
    qed
  qed
  with Cons.IH [of ?br] show ?case by simp
qed

text \<open>
  Claim C10. After \<^verbatim>\<open>construct_breed_graph\<close>, for every egg group of the goal lineage
  and every non-empty set \<open>S\<close> of goal moves that are not egg moves, the table of the
  group holds exactly 1 for \<open>S\<close> together with the egg moves. The seeding of a group
  runs after the search from that group; the searches from later groups enter the group
  only with a non-empty path and so never write less than 1 over an entry that is 1.
\<close>

theorem seeding_assigns_one:
  assumes "g \<in> set (goal_egg_groups s)" and "S \<noteq> {||}"
    and "S |\<subseteq>| goal_moves s |-| egg_moves s"
  shows "map_of (breeds_required (construct_breed_graph s) g) (S |\<union>| egg_moves s) = Some 1"
  using breed_loop_seeded [OF assms(2,3), of g "goal_egg_groups s" "\<lambda>g. []" "breed_pools s"] assms(1)
  by (simp add: construct_breed_graph_def)

text \<open>
  In the second breeding problem the search records 0 for the goal moveset at group 5 and
  the seeding overwrites it with 1.
\<close>

theorem seeding_assigns_one_witness:
  "5 \<in> set (goal_egg_groups seeded_search) \<and> {|1|} \<noteq> ({||} :: nat fset) \<and>
   {|1|} |\<subseteq>| goal_moves seeded_search |-| egg_moves seeded_search \<and>
   map_of (snd (handle (breed_pools seeded_search) 5 (goal_moves seeded_search) [] (\<lambda>g. [])) 5)
     {|1, 2|} = Some 0 \<and>
   map_of (breeds_required (construct_breed_graph seeded_search) 5)
     ({|1|} |\<union>| egg_moves seeded_search) = Some 1"
proof -
  have 1: "5 \<in> set (goal_egg_groups seeded_search)" by code_simp
  have 2: "{|1|} \<noteq> ({||} :: nat fset)" by simp
  have 3: "{|1|} |\<subseteq>| goal_moves seeded_search |-| egg_moves seeded_search" by code_simp
  have 4: "map_of (snd (handle (breed_pools seeded_search) 5 (goal_moves seeded_search) []
             (\<lambda>g. [])) 5) {|1, 2|} = Some 0" by code_simp
  from seeding_assigns_one [OF 1 2 3] 1 2 3 4 show ?thesis by blast
qed










section \<open>Properties of the loading and of the duplicate versions\<close>

text \<open>
  Claim C9 fails on the code. The two sets are filled from every goal-move row the query
  returns, whatever the selection: with the selection \<^verbatim>\<open>'others'\<close> the level-up
  row of the other lineage puts move 85 into both sets, where the docstring of
  \<^verbatim>\<open>load_pokemon_moves\<close> promises empty sets. (Here the selection
  \<^verbatim>\<open>'family'\<close> is the one that returns empty sets: the lineage has the move only
  as an egg move.)
\<close>

theorem others_selection_returns_moves:
  "(case load_pokemon_moves loading_search moves_db (Some 10) ''others'' of
      Inl e \<Rightarrow> False
    | Inr (sets, s) \<Rightarrow> sets = ({|85|}, {|85|})) \<and>
   (case load_pokemon_moves loading_search moves_db (Some 10) ''family'' of
      Inl e \<Rightarrow> False
    | Inr (sets, s) \<Rightarrow> sets = ({||}, {||}))"
  by code_simp

text \<open>
  Claim C7 fails on the code. A version group is compared only with the version group
  that opened the current set, so equal version groups are put together only when the
  dictionary yields them one after the other. Version groups 5 and 7 are of the same
  generation and have the same moves; iterated as 5, 6, 7 they end in the sets {5} and {7},
  iterated as 5, 7, 6 they share the set {5, 7}.
\<close>

theorem adjacent_duplicates_only:
  "generation_of (versions_search [5, 6, 7]) 5 = generation_of (versions_search [5, 6, 7]) 7 \<and>
   lookup_default (lookup_default (pokemon_moves (versions_search [5, 6, 7])) 25) 5 =
     lookup_default (lookup_default (pokemon_moves (versions_search [5, 6, 7])) 25) 7 \<and>
   duplicate_versions (versions_search [5, 6, 7]) 25 5 = Inr {|5|} \<and>
   duplicate_versions (versions_search [5, 6, 7]) 25 6 = Inr {|6|} \<and>
   duplicate_versions (versions_search [5, 6, 7]) 25 7 = Inr {|7|} \<and>
   duplicate_versions (versions_search [5, 7, 6]) 25 5 = Inr {|5, 7|} \<and>
   duplicate_versions (versions_search [5, 7, 6]) 25 7 = Inr {|5, 7|} \<and>
   duplicate_versions (versions_search [5, 7, 6]) 25 6 = Inr {|6|}"
  by code_simp

end
